theory Spec2Isabelle
  imports Main
begin

section \<open>Errors and outcomes\<close>

text \<open>
  The exceptions that \<^verbatim>\<open>widgets.py\<close> raises itself (\<^verbatim>\<open>WidgetDataError\<close>,
  \<^verbatim>\<open>WidgetError\<close>) and the built-in ones that its unguarded expressions raise.
\<close>

datatype error =
    WidgetDataError
  | WidgetError
  | TypeError
  | ValueError
  | AttributeError
  | IndexError

text \<open>
  A method mutates the tree in place, so an exception leaves the tree as it stands at the
  \<^verbatim>\<open>raise\<close>: both outcomes carry the state.
\<close>

datatype 's outcome = Done 's | Raised error 's

section \<open>The tree of a table\<close>

text \<open>
  A cell (\<^verbatim>\<open>Td\<close> or \<^verbatim>\<open>Th\<close>) with its \<^verbatim>\<open>childs\<close>; a row (\<^verbatim>\<open>Tr\<close>) is the
  list of its cells; the children of a table are its caption, header, footer and body
  containers, in the order they were appended.
\<close>

datatype 'a cell = Td "'a list" | Th "'a list"

type_synonym 'a row = "'a cell list"

datatype 'a part =
    Caption "'a list"
  | Thead "'a row list"
  | Tfoot "'a row list"
  | Tbody "'a row list"

text \<open>
  The table node: its children, and the attributes \<^verbatim>\<open>self.body\<close>, \<^verbatim>\<open>self.header\<close>,
  \<^verbatim>\<open>self.footer\<close>, \<^verbatim>\<open>self.caption\<close>, each a reference to one child, held as the
  position of that child. \<open>body = None\<close> is \<^verbatim>\<open>self.body = None\<close>; for the other
  three \<open>None\<close> is \<^verbatim>\<open>not hasattr(self, ...)\<close>.
\<close>

record 'a table =
  parts :: "'a part list"
  body :: "nat option"
  header :: "nat option"
  footer :: "nat option"
  caption :: "nat option"

text \<open>A grid: rows of values, \<open>None\<close> for Python's \<^verbatim>\<open>None\<close>.\<close>

type_synonym 'a grid = "'a option list list"

subsection \<open>The tree primitive\<close>

text \<open>
  Modelled from the spec: the tag classes of \<^verbatim>\<open>tempy.tags\<close> and their base class are
  absent. Section 6 of the specification gives their capabilities: the ordered children
  of a node (\<^verbatim>\<open>childs\<close>), the children count (\<^verbatim>\<open>len\<close>), the empty status
  (\<^verbatim>\<open>is_empty\<close>), clearing the content (\<^verbatim>\<open>empty()\<close>), appending content, and
  removing a node from its parent.
\<close>

fun childs :: "'a cell \<Rightarrow> 'a list" where
  "childs (Td xs) = xs"
| "childs (Th xs) = xs"

text \<open>Modelled from the spec: \<^verbatim>\<open>is_empty\<close>, the node has no content (section 6).\<close>

fun is_empty :: "'a cell \<Rightarrow> bool" where
  "is_empty c = (childs c = [])"

text \<open>Modelled from the spec: \<^verbatim>\<open>empty()\<close> clears the content of the node (section 6).\<close>

fun empty :: "'a cell \<Rightarrow> 'a cell" where
  "empty (Td xs) = Td []"
| "empty (Th xs) = Th []"

text \<open>
  Modelled from the spec: calling a node with a value appends the value to the node's
  content; an absent value (\<^verbatim>\<open>None\<close>) adds no content (section 3: a cell owns at most
  one content value, and grid values may be absent).
\<close>

fun call_cell :: "'a cell \<Rightarrow> 'a option \<Rightarrow> 'a cell" where
  "call_cell c None = c"
| "call_cell (Td xs) (Some v) = Td (xs @ [v])"
| "call_cell (Th xs) (Some v) = Th (xs @ [v])"

text \<open>
  Modelled from the spec: the truth value of a node. \<^verbatim>\<open>widgets.py\<close> takes \<^verbatim>\<open>len\<close>
  of the body and of its rows (the children count of section 6), and Python's truth
  value of an object with a length is that the length is not zero. The argument is the
  list of the node's children.
\<close>

definition node_true :: "'x list \<Rightarrow> bool" where
  "node_true kids = (kids \<noteq> [])"

text \<open>
  Modelled from the spec: iterating a node yields, in order, the children that the node
  owns when the loop starts (section 6: a node's children are an ordered sequence;
  section 4.1: existing rows and cells are paired with the input by position).
\<close>

definition iter_node :: "'x list \<Rightarrow> 'x list" where
  "iter_node kids = kids"

text \<open>\<^verbatim>\<open>not x\<close> for a variable that holds a node or \<^verbatim>\<open>None\<close>.\<close>

fun not_node :: "'x list option \<Rightarrow> bool" where
  "not_node None = True"
| "not_node (Some kids) = (\<not> node_true kids)"

text \<open>\<^verbatim>\<open>not d_row\<close> for a data row: a Python list or \<^verbatim>\<open>None\<close>.\<close>

fun not_list :: "'x list option \<Rightarrow> bool" where
  "not_list None = True"
| "not_list (Some xs) = (xs = [])"

subsection \<open>Python helpers\<close>

text \<open>\<^verbatim>\<open>itertools.zip_longest\<close> with the default fill value \<^verbatim>\<open>None\<close>.\<close>

fun zip_longest :: "'x list \<Rightarrow> 'y list \<Rightarrow> ('x option \<times> 'y option) list" where
  "zip_longest [] [] = []"
| "zip_longest (x # xs) [] = (Some x, None) # zip_longest xs []"
| "zip_longest [] (y # ys) = (None, Some y) # zip_longest [] ys"
| "zip_longest (x # xs) (y # ys) = (Some x, Some y) # zip_longest xs ys"

text \<open>\<^verbatim>\<open>max\<close> of a sequence of lengths: \<open>None\<close> is the \<^verbatim>\<open>ValueError\<close> of an empty one.\<close>

fun pymax :: "nat list \<Rightarrow> nat option" where
  "pymax [] = None"
| "pymax (x # xs) = Some (fold max xs x)"

text \<open>
  Modelled from the spec: \<^verbatim>\<open>AdjustableList\<close> of \<^verbatim>\<open>tempy.tools\<close> is absent.
  \<^verbatim>\<open>ljust\<close> pads the row on the right with the fill value up to the given length
  (section 4.1: pad with absent values to the maximum cell count of the input rows).
\<close>

definition ljust :: "'x list \<Rightarrow> nat \<Rightarrow> 'x \<Rightarrow> 'x list" where
  "ljust xs n fillvalue = xs @ replicate (n - length xs) fillvalue"

subsection \<open>Reading and writing the body\<close>

fun rows_of :: "'a part \<Rightarrow> 'a row list option" where
  "rows_of (Tbody rs) = Some rs"
| "rows_of (Thead rs) = Some rs"
| "rows_of (Tfoot rs) = Some rs"
| "rows_of (Caption xs) = None"

fun put_rows :: "'a part \<Rightarrow> 'a row list \<Rightarrow> 'a part" where
  "put_rows (Tbody _) rs = Tbody rs"
| "put_rows (Thead _) rs = Thead rs"
| "put_rows (Tfoot _) rs = Tfoot rs"
| "put_rows (Caption xs) rs = Caption xs"

text \<open>
  The rows of \<^verbatim>\<open>self.body\<close>; \<open>None\<close> when \<^verbatim>\<open>self.body\<close> is \<^verbatim>\<open>None\<close>. Children of
  a table are only ever appended, so a reference never dangles; the model reads a
  dangling one as \<open>None\<close>.
\<close>

definition body_rows :: "'a table \<Rightarrow> 'a row list option" where
  "body_rows t =
     (case body t of
        None \<Rightarrow> None
      | Some i \<Rightarrow> if i < length (parts t) then rows_of (parts t ! i) else None)"

definition map_body :: "('a row list \<Rightarrow> 'a row list) \<Rightarrow> 'a table \<Rightarrow> 'a table" where
  "map_body f t =
     (case body t of
        None \<Rightarrow> t
      | Some i \<Rightarrow>
          (case body_rows t of
             None \<Rightarrow> t
           | Some rs \<Rightarrow> t\<lparr>parts := (parts t)[i := put_rows (parts t ! i) (f rs)]\<rparr>))"

text \<open>
  Modelled from the spec: \<^verbatim>\<open>self(body=Tbody())\<close>, a call with a named child. The new,
  empty body is appended to the children of the table and the attribute \<^verbatim>\<open>body\<close> is
  bound to it (\<^verbatim>\<open>__init__\<close> sets \<^verbatim>\<open>self.body = None\<close> and \<^verbatim>\<open>add_row\<close> then
  calls \<^verbatim>\<open>self.body\<close>, so the call rebinds an attribute that exists).
\<close>

definition new_body :: "'a table \<Rightarrow> 'a table" where
  "new_body t = t\<lparr>parts := parts t @ [Tbody []], body := Some (length (parts t))\<rparr>"

text \<open>
  Modelled from the spec: \<^verbatim>\<open>t_row.remove()\<close> takes the row out of the children of its
  parent (section 6); \<open>pos\<close> is the position of the row among them.
\<close>

definition remove_at :: "nat \<Rightarrow> 'x list \<Rightarrow> 'x list" where
  "remove_at pos kids = take pos kids @ drop (Suc pos) kids"

section \<open>TempyTable\<close>

subsection \<open>\<^verbatim>\<open>_check_row_size\<close>\<close>

text \<open>
  The argument is a row (whose \<^verbatim>\<open>len\<close> is taken), or an integer, or \<^verbatim>\<open>None\<close> (for
  both of which \<^verbatim>\<open>len\<close> raises the \<^verbatim>\<open>TypeError\<close> that the method catches).
\<close>

datatype 'a rowarg = ARow "'a option list" | ALen nat | ANone

fun row_lenght :: "'a rowarg \<Rightarrow> nat option" where
  "row_lenght (ARow r) = Some (length r)"
| "row_lenght (ALen n) = Some n"
| "row_lenght ANone = None"

text \<open>
  \<^verbatim>\<open>max(map(len, self.body)) < row_lenght\<close>: iterating \<^verbatim>\<open>None\<close> is a
  \<^verbatim>\<open>TypeError\<close>, \<^verbatim>\<open>max\<close> of no rows a \<^verbatim>\<open>ValueError\<close>, comparing with \<^verbatim>\<open>None\<close> a
  \<^verbatim>\<open>TypeError\<close>. The result is the exception raised, if any.
\<close>

definition check_row_size :: "'a table \<Rightarrow> 'a rowarg \<Rightarrow> error option" where
  "check_row_size t row =
     (case body_rows t of
        None \<Rightarrow> Some TypeError
      | Some rs \<Rightarrow>
          (case pymax (map length rs) of
             None \<Rightarrow> Some ValueError
           | Some m \<Rightarrow>
               (case row_lenght row of
                  None \<Rightarrow> Some TypeError
                | Some n \<Rightarrow> if m < n then Some WidgetDataError else None)))"

subsection \<open>\<^verbatim>\<open>add_row\<close>\<close>

text \<open>\<^verbatim>\<open>Tr()(Td()(cell) for cell in row_data)\<close>\<close>

definition new_row :: "'a option list \<Rightarrow> 'a row" where
  "new_row row_data = map (\<lambda>cell. call_cell (Td []) cell) row_data"

fun as_rowarg :: "'a option list option \<Rightarrow> 'a rowarg" where
  "as_rowarg None = ANone"
| "as_rowarg (Some r) = ARow r"

definition add_row :: "'a table \<Rightarrow> 'a option list option \<Rightarrow> bool \<Rightarrow> 'a table outcome" where
  "add_row t row_data resize_x =
     (case (if \<not> resize_x then check_row_size t (as_rowarg row_data) else None) of
        Some e \<Rightarrow> Raised e t
      | None \<Rightarrow>
          (case row_data of
             None \<Rightarrow> Raised TypeError t
           | Some r \<Rightarrow>
               (case body_rows t of
                  None \<Rightarrow> Raised TypeError t
                | Some _ \<Rightarrow> Done (map_body (\<lambda>rs. rs @ [new_row r]) t))))"

subsection \<open>\<^verbatim>\<open>populate\<close>\<close>

text \<open>
  The body of the cell loop after \<^verbatim>\<open>t_cell\<close> is bound:
  \<^verbatim>\<open>if [d_cell] != t_cell.childs: ...\<close>
\<close>

definition put_cell :: "bool \<Rightarrow> 'a option \<Rightarrow> 'a cell \<Rightarrow> 'a cell" where
  "put_cell force d_cell t_cell =
     (if [d_cell] \<noteq> map Some (childs t_cell) then
        (let c = (if force \<and> \<not> is_empty t_cell then empty t_cell else t_cell)
         in if is_empty c \<and> d_cell \<noteq> None then call_cell c d_cell else c)
      else t_cell)"

text \<open>
  \<^verbatim>\<open>for t_cell, d_cell in zip_longest(t_row, d_row)\<close>, over the pairs. The state is the
  row; \<open>i\<close> is the position of \<^verbatim>\<open>t_cell\<close> in it. A value of the grid and the fill
  value of \<^verbatim>\<open>zip_longest\<close> are both \<^verbatim>\<open>None\<close>. \<^verbatim>\<open>Td().append_to(t_row)\<close>
  appends a new cell to the row and returns it; \<^verbatim>\<open>t_cell.childs\<close> on \<^verbatim>\<open>None\<close> is
  the \<^verbatim>\<open>AttributeError\<close>.
\<close>

fun merge_cells ::
  "bool \<Rightarrow> bool \<Rightarrow> 'a row \<Rightarrow> nat \<Rightarrow> ('a cell option \<times> 'a option option) list \<Rightarrow> 'a row outcome"
where
  "merge_cells resize_x force t_row i [] = Done t_row"
| "merge_cells resize_x force t_row i ((t_cell, d) # ps) =
     (let d_cell = (case d of None \<Rightarrow> None | Some v \<Rightarrow> v)
      in if not_node (map_option childs t_cell) \<and> resize_x then
           merge_cells resize_x force (t_row @ [put_cell force d_cell (Td [])]) (Suc i) ps
         else
           (case t_cell of
              None \<Rightarrow> Raised AttributeError t_row
            | Some c \<Rightarrow>
                merge_cells resize_x force (t_row[i := put_cell force d_cell c]) (Suc i) ps))"

text \<open>
  \<^verbatim>\<open>for t_row, d_row in zip_longest(self.body, data)\<close>, over the pairs. The state is the
  table; \<open>pos\<close> is the position in the body of the row that \<^verbatim>\<open>t_row\<close> names (rows
  removed before it shift it; rows added are appended behind the paired ones). In the
  last branch \<^verbatim>\<open>d_row\<close> may be \<^verbatim>\<open>None\<close>: \<^verbatim>\<open>AdjustableList(None)\<close> and
  \<^verbatim>\<open>zip_longest(t_row, None)\<close> both raise \<^verbatim>\<open>TypeError\<close>, \<^verbatim>\<open>None\<close> not being
  iterable. (\<^verbatim>\<open>t_row\<close> is never \<^verbatim>\<open>None\<close> there; the model needs the case.)
\<close>

fun merge_rows ::
  "bool \<Rightarrow> bool \<Rightarrow> bool \<Rightarrow> nat \<Rightarrow> 'a table \<Rightarrow> nat \<Rightarrow>
   ('a row option \<times> 'a option list option) list \<Rightarrow> 'a table outcome"
where
  "merge_rows resize_x force normalize' max_data_x t pos [] = Done t"
| "merge_rows resize_x force normalize' max_data_x t pos ((t_row, d_row) # ps) =
     (if not_node t_row then
        (case add_row t d_row False of
           Raised e t' \<Rightarrow> Raised e t'
         | Done t' \<Rightarrow>
             merge_rows resize_x force normalize' max_data_x t'
               (case t_row of None \<Rightarrow> pos | Some _ \<Rightarrow> Suc pos) ps)
      else if not_list d_row \<and> force then
        merge_rows resize_x force normalize' max_data_x
          (map_body (remove_at pos) t) pos ps
      else
        (case t_row of
           None \<Rightarrow> Raised AttributeError t
         | Some r \<Rightarrow>
             (case (if normalize' then map_option (\<lambda>d. ljust d max_data_x None) d_row
                    else d_row) of
                None \<Rightarrow> Raised TypeError t
              | Some d \<Rightarrow>
                  (case merge_cells resize_x force r 0 (zip_longest (iter_node r) d) of
                     Raised e r' \<Rightarrow> Raised e (map_body (\<lambda>rs. rs[pos := r']) t)
                   | Done r' \<Rightarrow>
                       merge_rows resize_x force normalize' max_data_x
                         (map_body (\<lambda>rs. rs[pos := r']) t) (Suc pos) ps))))"

text \<open>\<^verbatim>\<open>for row in data: self.add_row(row, resize_x=True)\<close>\<close>

fun add_rows :: "'a table \<Rightarrow> 'a grid \<Rightarrow> 'a table outcome" where
  "add_rows t [] = Done t"
| "add_rows t (row # data) =
     (case add_row t (Some row) True of
        Raised e t' \<Rightarrow> Raised e t'
      | Done t' \<Rightarrow> add_rows t' data)"

text \<open>
  \<^verbatim>\<open>populate(self, data, resize_x=False, force=True, normalize=True)\<close>; \<open>data = None\<close>
  is Python's \<^verbatim>\<open>None\<close>.
\<close>

definition populate ::
  "'a table \<Rightarrow> 'a grid option \<Rightarrow> bool \<Rightarrow> bool \<Rightarrow> bool \<Rightarrow> 'a table outcome"
where
  "populate t data resize_x force normalize' =
     (case data of
        None \<Rightarrow> Done t
      | Some d \<Rightarrow>
          if not_node (body_rows t) then add_rows (new_body t) d
          else
            (case pymax (map length d) of
               None \<Rightarrow> Raised ValueError t
             | Some max_data_x \<Rightarrow>
                 (case (if \<not> resize_x then check_row_size t (ALen max_data_x) else None) of
                    Some e \<Rightarrow> Raised e t
                  | None \<Rightarrow>
                      (case body_rows t of
                         None \<Rightarrow> Raised TypeError t
                       | Some rs \<Rightarrow>
                           merge_rows resize_x force normalize' max_data_x t 0
                             (zip_longest (iter_node rs) d)))))"

subsection \<open>Header, footer and caption\<close>

text \<open>The two parts that \<^verbatim>\<open>_make_table_part\<close> knows, with their tags.\<close>

datatype part_name = header_part | footer_part

fun part_tag :: "part_name \<Rightarrow> 'a row list \<Rightarrow> 'a part" where
  "part_tag header_part = Thead"
| "part_tag footer_part = Tfoot"

fun inner_tag :: "part_name \<Rightarrow> 'a list \<Rightarrow> 'a cell" where
  "inner_tag header_part = Th"
| "inner_tag footer_part = Td"

fun has_part :: "'a table \<Rightarrow> part_name \<Rightarrow> bool" where
  "has_part t header_part = (header t \<noteq> None)"
| "has_part t footer_part = (footer t \<noteq> None)"

fun set_part :: "'a table \<Rightarrow> part_name \<Rightarrow> nat \<Rightarrow> 'a table" where
  "set_part t header_part i = t\<lparr>header := Some i\<rparr>"
| "set_part t footer_part i = t\<lparr>footer := Some i\<rparr>"

text \<open>
  \<^verbatim>\<open>_make_table_part\<close>: a new container is appended to the table, the attribute is set
  if the table has none of that name, and the container receives one row of cells.
\<close>

definition make_table_part :: "'a table \<Rightarrow> part_name \<Rightarrow> 'a option list \<Rightarrow> 'a table" where
  "make_table_part t part data =
     (let i = length (parts t);
          t1 = t\<lparr>parts := parts t @ [part_tag part []]\<rparr>;
          t2 = (if \<not> has_part t1 part then set_part t1 part i else t1)
      in t2\<lparr>parts := (parts t2)
              [i := part_tag part [map (\<lambda>col. call_cell (inner_tag part []) col) data]]\<rparr>)"

definition make_header :: "'a table \<Rightarrow> 'a option list \<Rightarrow> 'a table" where
  "make_header t head = make_table_part t header_part head"

definition make_footer :: "'a table \<Rightarrow> 'a option list \<Rightarrow> 'a table" where
  "make_footer t foot = make_table_part t footer_part foot"

text \<open>
  \<^verbatim>\<open>make_caption\<close>: the caption node is created if the table has none, then emptied and
  given the new content.
\<close>

definition make_caption :: "'a table \<Rightarrow> 'a option \<Rightarrow> 'a table" where
  "make_caption t cap =
     (let t1 = (if caption t = None
                then t\<lparr>parts := parts t @ [Caption []], caption := Some (length (parts t))\<rparr>
                else t)
      in case caption t1 of
           None \<Rightarrow> t1
         | Some i \<Rightarrow> t1\<lparr>parts := (parts t1)[i := Caption (case cap of None \<Rightarrow> [] | Some v \<Rightarrow> [v])]\<rparr>)"

subsection \<open>\<^verbatim>\<open>__init__\<close>\<close>

text \<open>
  The truth value of the argument \<^verbatim>\<open>caption\<close>: \<^verbatim>\<open>None\<close> is false, a value is as
  true as \<open>truth\<close> says (for a string, that it is not empty).
\<close>

fun caption_true :: "('a \<Rightarrow> bool) \<Rightarrow> 'a option \<Rightarrow> bool" where
  "caption_true truth None = False"
| "caption_true truth (Some v) = truth v"

text \<open>The table node before \<^verbatim>\<open>__init__\<close> fills it: no children, \<^verbatim>\<open>self.body = None\<close>.\<close>

definition new_table :: "'a table" where
  "new_table = \<lparr>parts = [], body = None, header = None, footer = None, caption = None\<rparr>"

text \<open>
  \<^verbatim>\<open>TempyTable(rows, cols, data, caption, head, foot)\<close>. \<^verbatim>\<open>data.pop(0)\<close> and
  \<^verbatim>\<open>data.pop()\<close> raise \<^verbatim>\<open>IndexError\<close> on an empty list. \<^verbatim>\<open>if caption:\<close> takes
  Python's truth value of the caption; the type of the leaf values is a parameter of the
  model, so their truth value is one too (\<open>truth\<close>, the first argument).
\<close>

definition TempyTable ::
  "('a \<Rightarrow> bool) \<Rightarrow> nat \<Rightarrow> nat \<Rightarrow> 'a grid option \<Rightarrow> 'a option \<Rightarrow> bool \<Rightarrow> bool
     \<Rightarrow> 'a table outcome"
where
  "TempyTable truth rows cols data cap head foot =
     (let data1 = (case data of
                     None \<Rightarrow> replicate (rows + of_bool head + of_bool foot) (replicate cols None)
                   | Some d \<Rightarrow>
                       if d = []
                       then replicate (rows + of_bool head + of_bool foot) (replicate cols None)
                       else d);
          t1 = (if caption_true truth cap then make_caption new_table cap else new_table)
      in if head \<and> data1 = [] then Raised IndexError t1
         else
           (let t2 = (if head then make_header t1 (hd data1) else t1);
                data2 = (if head then tl data1 else data1)
            in if foot \<and> data2 = [] then Raised IndexError t2
               else
                 (let t3 = (if foot then make_footer t2 (last data2) else t2);
                      data3 = (if foot then butlast data2 else data2)
                  in populate t3 (Some data3) True True True)))"

text \<open>The leaf content of a cell: its first child, \<open>None\<close> when it has none.\<close>

definition leaf :: "'a cell \<Rightarrow> 'a option" where
  "leaf c = (case childs c of [] \<Rightarrow> None | v # _ \<Rightarrow> Some v)"

section \<open>TempyList\<close>

subsection \<open>Python values and the list tree\<close>

text \<open>
  The structures given to the list builder: \<^verbatim>\<open>None\<close>, strings, integers, classes (a
  tag class, by its name), lists, and dicts as association lists in insertion order.
  Tuples and sets, which \<^verbatim>\<open>populate\<close> treats as it treats lists, are left out.
\<close>

datatype pyv =
    PNone
  | PStr string
  | PInt int
  | PCls string
  | PList "pyv list"
  | PDict "(pyv \<times> pyv) list"

text \<open>A node of the list tree: a tag name with its children, or a leaf value.\<close>

datatype dom = Leaf pyv | Elem string "dom list"

text \<open>Python's truth value.\<close>

fun py_true :: "pyv \<Rightarrow> bool" where
  "py_true PNone = False"
| "py_true (PStr s) = (s \<noteq> [])"
| "py_true (PInt i) = (i \<noteq> 0)"
| "py_true (PCls c) = True"
| "py_true (PList xs) = (xs \<noteq> [])"
| "py_true (PDict d) = (d \<noteq> [])"

text \<open>Lists and dicts cannot be keys of a dict.\<close>

fun hashable :: "pyv \<Rightarrow> bool" where
  "hashable (PList xs) = False"
| "hashable (PDict d) = False"
| "hashable v = True"

text \<open>\<^verbatim>\<open>d[k] = v\<close>: a key that is present keeps its place.\<close>

fun dict_set :: "(pyv \<times> pyv) list \<Rightarrow> pyv \<Rightarrow> pyv \<Rightarrow> (pyv \<times> pyv) list" where
  "dict_set [] k v = [(k, v)]"
| "dict_set ((k', v') # d) k v =
     (if k' = k then (k', v) # d else (k', v') # dict_set d k v)"

text \<open>\<^verbatim>\<open>dict(pairs)\<close>, from the dict built so far; an unhashable key is a \<^verbatim>\<open>TypeError\<close>.\<close>

fun dict_from :: "(pyv \<times> pyv) list \<Rightarrow> (pyv \<times> pyv) list \<Rightarrow> error + (pyv \<times> pyv) list" where
  "dict_from acc [] = Inr acc"
| "dict_from acc ((k, v) # ps) =
     (if hashable k then dict_from (dict_set acc k v) ps else Inl TypeError)"

text \<open>\<^verbatim>\<open>d.pop(k)\<close>: the value and the dict without the key; \<open>None\<close> is \<^verbatim>\<open>KeyError\<close>.\<close>

fun dict_pop :: "(pyv \<times> pyv) list \<Rightarrow> pyv \<Rightarrow> (pyv \<times> (pyv \<times> pyv) list) option" where
  "dict_pop [] k = None"
| "dict_pop ((k', v) # d) k =
     (if k' = k then Some (v, d)
      else (case dict_pop d k of None \<Rightarrow> None | Some (r, d') \<Rightarrow> Some (r, (k', v) # d')))"

text \<open>The fill value of \<^verbatim>\<open>zip_longest\<close> is \<^verbatim>\<open>None\<close>.\<close>

fun unfill :: "pyv option \<Rightarrow> pyv" where
  "unfill None = PNone"
| "unfill (Some v) = v"

text \<open>\<^verbatim>\<open>zip_longest(struct, [None])\<close>\<close>

definition pairs_of :: "pyv list \<Rightarrow> (pyv \<times> pyv) list" where
  "pairs_of xs = map (\<lambda>(k, v). (unfill k, unfill v)) (zip_longest xs [PNone])"

subsection \<open>\<^verbatim>\<open>TempyList.__new__\<close>\<close>

text \<open>
  \<^verbatim>\<open>try: typ = struct.pop('_typ')\<close> with \<^verbatim>\<open>TypeError\<close>, \<^verbatim>\<open>KeyError\<close> and
  \<^verbatim>\<open>AttributeError\<close> passed over: only a dict that has the key changes \<^verbatim>\<open>typ\<close>, and
  loses the key. The result is \<^verbatim>\<open>typ\<close> and \<^verbatim>\<open>struct\<close> after the statement.
\<close>

definition pop_typ :: "pyv \<Rightarrow> pyv \<Rightarrow> pyv \<times> pyv" where
  "pop_typ typ struct =
     (case struct of
        PDict d \<Rightarrow>
          (case dict_pop d (PStr ''_typ'') of
             None \<Rightarrow> (typ, struct)
           | Some (v, d') \<Rightarrow> (v, PDict d'))
      | _ \<Rightarrow> (typ, struct))"

text \<open>
  The class of the list node. A string is looked up in the module \<^verbatim>\<open>tempy.tags\<close>
  (\<open>tags\<close>, a parameter: the attributes of the module by name), a failed lookup is the
  \<^verbatim>\<open>WidgetError\<close>; then \<^verbatim>\<open>typ or Ul\<close>; a value that is not a class has no
  \<^verbatim>\<open>__name__\<close>.
\<close>

definition resolve :: "(string \<Rightarrow> pyv option) \<Rightarrow> pyv \<Rightarrow> error + string" where
  "resolve tags typ =
     (case (case typ of
              PStr s \<Rightarrow> (case tags s of None \<Rightarrow> Inl WidgetError | Some v \<Rightarrow> Inr v)
            | _ \<Rightarrow> Inr typ) of
        Inl e \<Rightarrow> Inl e
      | Inr t \<Rightarrow>
          (case (if py_true t then t else PCls ''Ul'') of
             PCls c \<Rightarrow> Inr c
           | _ \<Rightarrow> Inl AttributeError))"

text \<open>
  Modelled from the spec: \<^verbatim>\<open>Li()(k)\<close>, the content of a new item; as for a cell, an
  absent value adds no content.
\<close>

fun li_content :: "pyv \<Rightarrow> dom list" where
  "li_content PNone = []"
| "li_content k = [Leaf k]"

text \<open>The measure of the item loop: the sizes of the sub-structures still to be built.\<close>

definition vsum :: "(pyv \<times> pyv) list \<Rightarrow> nat" where
  "vsum d = sum_list (map (\<lambda>(k, v). Suc (size v)) d)"

subsection \<open>\<^verbatim>\<open>TempyList\<close> and \<^verbatim>\<open>TempyListMeta.populate\<close>\<close>

text \<open>
  \<open>TempyList tags typ struct\<close> is \<^verbatim>\<open>TempyList(typ, struct)\<close>: the class is resolved,
  then the node is created and \<^verbatim>\<open>__init__\<close> populates it. An error carries the node
  that exists when it is raised: \<open>None\<close> when the factory fails before it creates one.

  \<open>populate_list tags c kids struct\<close> is \<^verbatim>\<open>populate(struct)\<close> on a list node of class
  \<open>c\<close> with the children \<open>kids\<close>; the result is the children after the call.
  \<open>populate_items\<close> is its loop \<^verbatim>\<open>for k, submenu in struct.items()\<close>.
\<close>

function TempyList ::
    "(string \<Rightarrow> pyv option) \<Rightarrow> pyv \<Rightarrow> pyv \<Rightarrow> (error \<times> dom option) + dom"
  and populate_list ::
    "(string \<Rightarrow> pyv option) \<Rightarrow> string \<Rightarrow> dom list \<Rightarrow> pyv \<Rightarrow> (error \<times> dom list) + dom list"
  and populate_items ::
    "(string \<Rightarrow> pyv option) \<Rightarrow> string \<Rightarrow> dom list \<Rightarrow> (pyv \<times> pyv) list
       \<Rightarrow> (error \<times> dom list) + dom list"
where
  "TempyList tags typ struct =
     (case resolve tags (fst (pop_typ typ struct)) of
        Inl e \<Rightarrow> Inl (e, None)
      | Inr c \<Rightarrow>
          (case populate_list tags c [] (snd (pop_typ typ struct)) of
             Inl (e, kids) \<Rightarrow> Inl (e, Some (Elem c kids))
           | Inr kids \<Rightarrow> Inr (Elem c kids)))"
| "populate_list tags c kids struct =
     (case struct of
        PNone \<Rightarrow> Inr kids
      | PList xs \<Rightarrow>
          (case dict_from [] (pairs_of xs) of
             Inl e \<Rightarrow> Inl (e, kids)
           | Inr d \<Rightarrow> populate_items tags c kids d)
      | PDict d \<Rightarrow> populate_items tags c kids d
      | _ \<Rightarrow> Inl (WidgetDataError, kids))"
| "populate_items tags c kids [] = Inr kids"
| "populate_items tags c kids ((k, submenu) # es) =
     (if py_true submenu then
        (case TempyList tags (PCls c) submenu of
           Inl (e, _) \<Rightarrow> Inl (e, kids @ [Elem ''Li'' (li_content k)])
         | Inr sub \<Rightarrow> populate_items tags c (kids @ [Elem ''Li'' (li_content k @ [sub])]) es)
      else populate_items tags c (kids @ [Elem ''Li'' (li_content k)]) es)"
  by pat_completeness auto

termination
proof (relation "measure (\<lambda>x. case x of
          Inl (tags, typ, struct) \<Rightarrow> 3 * size struct + 2
        | Inr (Inl (tags, c, kids, struct)) \<Rightarrow> 3 * size struct + 1
        | Inr (Inr (tags, c, kids, d)) \<Rightarrow> 3 * vsum d)", goal_cases)
  have set_le: "vsum (dict_set d k v) \<le> vsum d + Suc (size v)" for d k v
    by (induction d k v rule: dict_set.induct) (auto simp: vsum_def)
  have from_le: "dict_from acc ps = Inr d \<Longrightarrow> vsum d \<le> vsum acc + vsum ps" for acc ps d
  proof (induction acc ps rule: dict_from.induct)
    case (1 acc)
    then show ?case by simp
  next
    case (2 acc k v ps)
    then show ?case
      using set_le[of acc k v] by (auto simp: vsum_def split: if_splits)
  qed
  have fill: "vsum (map (\<lambda>(k, v). (unfill k, unfill v)) (zip_longest xs [])) = length xs"
    for xs :: "pyv list"
    by (induction xs) (simp_all add: vsum_def)
  have pairs_le: "vsum (pairs_of xs) \<le> Suc (length xs)" for xs
  proof (cases xs)
    case Nil
    then show ?thesis by (simp add: pairs_of_def vsum_def)
  next
    case (Cons x xs')
    then show ?thesis using fill[of xs'] by (simp add: pairs_of_def vsum_def)
  qed
  have len_le: "length xs \<le> size_list size xs" for xs :: "pyv list"
    by (induction xs) simp_all
  have vsum_le: "vsum d \<le> size_list (size_prod size size) d" for d
    by (induction d) (auto simp: vsum_def)
  have pop_le: "dict_pop d k = Some (v, d') \<Longrightarrow>
      size_list (size_prod size size) d' \<le> size_list (size_prod size size) d" for d k v d'
    by (induction d k arbitrary: d' rule: dict_pop.induct)
       (auto split: if_splits option.splits)
  have pop_typ_le: "size (snd (pop_typ ty struct)) \<le> size struct" for ty struct
    by (auto simp: pop_typ_def dest: pop_le split: pyv.splits option.splits)
  {
    case 1
    then show ?case by simp
  next
    case (2 tags ty struct c)
    then show ?case using pop_typ_le[of ty struct] by simp
  next
    case (3 tags c kids struct xs d)
    then show ?case
      using from_le[of "[]" "pairs_of xs" d] pairs_le[of xs] len_le[of xs]
      by (simp add: vsum_def)
  next
    case (4 tags c kids struct d)
    then show ?case using vsum_le[of d] by simp
  next
    case (5 tags c kids k submenu es)
    then show ?case by (simp add: vsum_def)
  next
    case (6 tags c kids k submenu es sub)
    then show ?case by (simp add: vsum_def)
  next
    case (7 tags c kids k submenu es)
    then show ?case by (simp add: vsum_def)
  }
qed

text \<open>
  Modelled from the spec: the module \<^verbatim>\<open>tempy.tags\<close> is absent. Its attributes are taken
  to be the tag classes that \<^verbatim>\<open>widgets.py\<close> imports from it or reaches through it, and
  \<^verbatim>\<open>Ol\<close>, the ordered list of the docstring (the list flavors of section 3 are
  \<^verbatim>\<open>Ul\<close> and \<^verbatim>\<open>Ol\<close>).
\<close>

definition tags_module :: "string \<Rightarrow> pyv option" where
  "tags_module name =
     (if name \<in> set [''Html'', ''Head'', ''Body'', ''Meta'', ''Title'', ''Table'', ''Tbody'',
                      ''Thead'', ''Tfoot'', ''Caption'', ''Td'', ''Tr'', ''Th'', ''Li'', ''Ul'',
                      ''Ol'']
      then Some (PCls name) else None)"

text \<open>A structure embeds a flavor override when it is a dict with the key \<^verbatim>\<open>'_typ'\<close>.\<close>

definition embeds_typ :: "pyv \<Rightarrow> bool" where
  "embeds_typ struct =
     (case struct of PDict d \<Rightarrow> dict_pop d (PStr ''_typ'') \<noteq> None | _ \<Rightarrow> False)"

section \<open>Sample tables\<close>

definition table_ab :: "string table" where
  "table_ab = \<lparr>parts = [Tbody [[Td [''a''], Td [''b'']]]],
               body = Some 0, header = None, footer = None, caption = None\<rparr>"

definition table_ab_c :: "string table" where
  "table_ab_c = \<lparr>parts = [Tbody [[Td [''a''], Td [''b'']], [Td [''c'']]]],
                 body = Some 0, header = None, footer = None, caption = None\<rparr>"

definition grid_ab_c :: "string grid" where
  "grid_ab_c = [[Some ''a'', Some ''b''], [Some ''c'']]"

definition table_3rows :: "string table" where
  "table_3rows = \<lparr>parts = [Tbody [[Td [''a'']], [Td [''b'']], [Td [''c'']]]],
                  body = Some 0, header = None, footer = None, caption = None\<rparr>"

section \<open>Properties\<close>

subsection \<open>Auxiliary facts about the table\<close>

lemma pymax_Some: "xs \<noteq> [] \<Longrightarrow> pymax xs = Some (Max (set xs))"
  by (cases xs) (simp_all add: Max.set_eq_fold del: set_simps)

lemma rows_of_put_rows: "rows_of p = Some rs \<Longrightarrow> rows_of (put_rows p rs') = Some rs'"
  by (cases p) simp_all

lemma put_rows_put_rows: "put_rows (put_rows p a) b = put_rows p b"
  by (cases p) simp_all

lemma put_rows_same: "rows_of p = Some rs \<Longrightarrow> put_rows p rs = p"
  by (cases p) simp_all

lemma body_rows_map_body:
  "body_rows t = Some rs \<Longrightarrow> body_rows (map_body f t) = Some (f rs)"
  by (auto simp: body_rows_def map_body_def rows_of_put_rows split: option.splits if_splits)

lemma map_body_map_body:
  "body_rows t = Some rs \<Longrightarrow> map_body f (map_body g t) = map_body (\<lambda>rs. f (g rs)) t"
  by (auto simp: body_rows_def map_body_def rows_of_put_rows put_rows_put_rows
           split: option.splits if_splits)

lemma add_row_resize:
  "body_rows t = Some rs \<Longrightarrow>
   add_row t (Some r) True = Done (map_body (\<lambda>rs. rs @ [new_row r]) t)"
  by (simp add: add_row_def)

text \<open>The loop of the empty-body case appends one new row per input row, in order.\<close>

lemma add_rows_eq:
  "body_rows t = Some rs \<Longrightarrow> add_rows t g = Done (map_body (\<lambda>rs. rs @ map new_row g) t)"
proof (induction g arbitrary: t rs)
  case Nil
  then show ?case
    by (auto simp: map_body_def body_rows_def put_rows_same split: option.splits if_splits)
next
  case (Cons r g)
  then show ?case
    by (simp add: add_row_resize body_rows_map_body map_body_map_body)
qed

lemma body_rows_new_body: "body_rows (new_body t) = Some []"
  by (simp add: body_rows_def new_body_def)

lemma map_body_new_body:
  "map_body f (new_body t) =
     t\<lparr>parts := parts t @ [Tbody (f [])], body := Some (length (parts t))\<rparr>"
  by (simp add: map_body_def body_rows_def new_body_def)

lemma populate_no_body:
  assumes "body_rows t = None"
  shows "populate t (Some g) resize_x force normalize' =
         Done (t\<lparr>parts := parts t @ [Tbody (map new_row g)], body := Some (length (parts t))\<rparr>)"
  using assms
  by (simp add: populate_def add_rows_eq[OF body_rows_new_body] map_body_new_body)

lemma leaf_new_cell: "leaf (call_cell (Td []) v) = v"
  by (cases v) (simp_all add: leaf_def)

subsection \<open>Claims about the table\<close>

text \<open>
  Claim C1. Idempotence of \<^verbatim>\<open>populate\<close> is what the specification asks for; the code
  does not have it. A table with the single row \<open>[a, b]\<close>, reconciled with the grid
  \<open>[[a, b], [c]]\<close> without column resize (with \<^verbatim>\<open>force\<close> and \<^verbatim>\<open>normalize\<close>), gains
  the row \<open>[c]\<close> of one cell: a row that is added is not padded. The second call with
  the same grid and options pads the input row to two values, finds no cell for the
  second one and raises \<^verbatim>\<open>AttributeError\<close> at \<^verbatim>\<open>t_cell.childs\<close>.
\<close>

theorem populate_twice_raises:
  "populate table_ab (Some grid_ab_c) False True True = Done table_ab_c
   \<and> populate table_ab_c (Some grid_ab_c) False True True = Raised AttributeError table_ab_c"
  by (simp add: populate_def table_ab_def table_ab_c_def grid_ab_c_def body_rows_def
      node_true_def iter_node_def check_row_size_def add_row_def map_body_def new_row_def
      ljust_def put_cell_def)

text \<open>
  Claim C2. Width guard: when the body owns at least one row and the grid has a row
  wider than the widest row of the body, \<^verbatim>\<open>populate\<close> with \<^verbatim>\<open>resize_x=False\<close>
  raises \<^verbatim>\<open>WidgetDataError\<close>, and the table at the raise is the table of the call.
\<close>

theorem width_guard:
  assumes "body_rows t = Some rs" and "rs \<noteq> []" and "r \<in> set d"
    and "Max (set (map length rs)) < length r"
  shows "populate t (Some d) False force normalize' = Raised WidgetDataError t"
proof -
  from assms(3) have d: "map length d \<noteq> []" by auto
  have "length r \<le> Max (set (map length d))" using assms(3) by (intro Max_ge) auto
  with assms(4) have lt: "Max (set (map length rs)) < Max (set (map length d))" by simp
  from assms(2) have rs: "map length rs \<noteq> []" by simp
  show ?thesis
    using assms(1,2) lt
    by (simp add: populate_def node_true_def check_row_size_def
        pymax_Some[OF d] pymax_Some[OF rs])
qed

theorem width_guard_witness:
  "body_rows table_ab = Some [[Td [''a''], Td [''b'']]]
   \<and> [Some ''x'', Some ''y'', Some ''z''] \<in> set [[Some ''x'', Some ''y'', Some ''z'']]
   \<and> Max (set (map length [[Td [''a''], Td [''b'']]])) < length [Some ''x'', Some ''y'', Some ''z'']
   \<and> populate table_ab (Some [[Some ''x'', Some ''y'', Some ''z'']]) False True True
       = Raised WidgetDataError table_ab"
  using width_guard[of table_ab "[[Td [''a''], Td [''b'']]]"
      "[Some ''x'', Some ''y'', Some ''z'']" "[[Some ''x'', Some ''y'', Some ''z'']]" True True]
  by (simp add: table_ab_def body_rows_def)

text \<open>
  Claim C3. With \<^verbatim>\<open>force=False\<close> a body that has more rows than the grid is not left
  as it is by a call that returns: at the first surplus row \<^verbatim>\<open>d_row\<close> is \<^verbatim>\<open>None\<close>,
  the removal is skipped and the cell merge is entered, which raises \<^verbatim>\<open>TypeError\<close>
  (\<^verbatim>\<open>AdjustableList(None)\<close> with \<^verbatim>\<open>normalize\<close>, \<^verbatim>\<open>zip_longest(t_row, None)\<close>
  without). Evaluated on a body of three rows and a grid of one row.
\<close>

theorem populate_no_force_surplus_raises:
  "populate table_3rows (Some [[Some ''a'']]) False False True = Raised TypeError table_3rows
   \<and> populate table_3rows (Some [[Some ''a'']]) False False False = Raised TypeError table_3rows"
  by (simp add: populate_def table_3rows_def body_rows_def node_true_def iter_node_def
      check_row_size_def map_body_def ljust_def put_cell_def)

text \<open>
  Claim C4. For a grid of at least two rows, \<^verbatim>\<open>TempyTable(data=g, head=True, foot=True)\<close>
  builds the header from the first row (cells \<^verbatim>\<open>Th\<close>), the footer from the last row
  (cells \<^verbatim>\<open>Td\<close>), and the body from the rows in between, which are all that is left of
  the grid once both have been popped. The children of the table are, in this order, the
  caption (when the caption given is a true value), the header, the footer and the body.
\<close>

theorem init_head_foot:
  assumes "2 \<le> length g"
  shows "TempyTable truth rows cols (Some g) cap True True =
           Done \<lparr>parts = (case cap of
                            None \<Rightarrow> []
                          | Some v \<Rightarrow> if truth v then [Caption [v]] else [])
                          @ [Thead [map (call_cell (Th [])) (hd g)],
                             Tfoot [map (call_cell (Td [])) (last g)],
                             Tbody (map new_row (butlast (tl g)))],
                 body = Some (of_bool (caption_true truth cap) + 2),
                 header = Some (of_bool (caption_true truth cap)),
                 footer = Some (of_bool (caption_true truth cap) + 1),
                 caption = (if caption_true truth cap then Some 0 else None)\<rparr>"
proof -
  from assms have g: "g \<noteq> []" "tl g \<noteq> []" by (cases g; cases "tl g"; simp)+
  have l: "last (tl g) = last g" using g by (simp add: last_tl)
  show ?thesis
  proof (cases "caption_true truth cap")
    case False
    then show ?thesis using g
      by (cases cap)
         (simp_all add: TempyTable_def new_table_def make_header_def make_footer_def
           make_table_part_def Let_def populate_no_body body_rows_def l)
  next
    case True
    then obtain v where "cap = Some v" "truth v" by (cases cap) simp_all
    then show ?thesis using g
      by (simp add: TempyTable_def new_table_def make_header_def make_footer_def
          make_caption_def make_table_part_def Let_def populate_no_body body_rows_def l)
  qed
qed

theorem init_head_foot_witness:
  "2 \<le> length [[Some ''h1'', Some ''h2''], [Some ''r1'', Some ''r2''], [Some ''f1'', Some ''f2'']]
   \<and> TempyTable (\<lambda>s. s \<noteq> []) 0 0
        (Some [[Some ''h1'', Some ''h2''], [Some ''r1'', Some ''r2''], [Some ''f1'', Some ''f2'']])
        (Some ''T'') True True =
      Done \<lparr>parts = [Caption [''T''],
                     Thead [[Th [''h1''], Th [''h2'']]],
                     Tfoot [[Td [''f1''], Td [''f2'']]],
                     Tbody [[Td [''r1''], Td [''r2'']]]],
            body = Some 3, header = Some 1, footer = Some 2, caption = Some 0\<rparr>
   \<and> TempyTable (\<lambda>s. s \<noteq> []) 0 0
        (Some [[Some ''h1'', Some ''h2''], [Some ''r1'', Some ''r2''], [Some ''f1'', Some ''f2'']])
        (Some []) True True =
      Done \<lparr>parts = [Thead [[Th [''h1''], Th [''h2'']]],
                     Tfoot [[Td [''f1''], Td [''f2'']]],
                     Tbody [[Td [''r1''], Td [''r2'']]]],
            body = Some 2, header = Some 0, footer = Some 1, caption = None\<rparr>"
  using init_head_foot[of
      "[[Some ''h1'', Some ''h2''], [Some ''r1'', Some ''r2''], [Some ''f1'', Some ''f2'']]"
      "\<lambda>s. s \<noteq> []" 0 0 "Some ''T''"]
    init_head_foot[of
      "[[Some ''h1'', Some ''h2''], [Some ''r1'', Some ''r2''], [Some ''f1'', Some ''f2'']]"
      "\<lambda>s. s \<noteq> []" 0 0 "Some []"]
  by (simp add: new_row_def)

text \<open>
  Claim C5. Reconciling a grid of \<open>r\<close> rows of \<open>c\<close> values each into a table whose
  \<^verbatim>\<open>body\<close> is \<^verbatim>\<open>None\<close> returns a table whose body has \<open>r\<close> rows of \<open>c\<close> cells each,
  and the leaf content of the cell at \<open>(i, j)\<close> is the grid value at \<open>(i, j)\<close>; the
  options play no part.
\<close>

theorem populate_grows_from_empty:
  assumes "body t = None" and "length g = r" and "\<forall>row \<in> set g. length row = c"
  shows "\<exists>t' rs. populate t (Some g) resize_x force normalize' = Done t'
           \<and> body_rows t' = Some rs \<and> length rs = r
           \<and> (\<forall>i < r. length (rs ! i) = c \<and> (\<forall>j < c. leaf (rs ! i ! j) = g ! i ! j))"
proof -
  let ?t' = "t\<lparr>parts := parts t @ [Tbody (map new_row g)], body := Some (length (parts t))\<rparr>"
  from assms(1) have nb: "body_rows t = None" by (simp add: body_rows_def)
  have 1: "populate t (Some g) resize_x force normalize' = Done ?t'"
    by (rule populate_no_body[OF nb])
  have 2: "body_rows ?t' = Some (map new_row g)" by (simp add: body_rows_def)
  have 3: "\<forall>i < r. length (map new_row g ! i) = c
             \<and> (\<forall>j < c. leaf (map new_row g ! i ! j) = g ! i ! j)"
    using assms(2,3) by (auto simp: new_row_def leaf_new_cell)
  from 1 2 3 assms(2) show ?thesis by auto
qed

theorem populate_grows_from_empty_witness:
  "body (new_table :: string table) = None
   \<and> length [[Some ''a'', None], [Some ''b'', Some ''c'']] = 2
   \<and> list_all (\<lambda>row. length row = 2) [[Some ''a'', None], [Some ''b'', Some ''c'']]
   \<and> (\<exists>t' rs. populate new_table (Some [[Some ''a'', None], [Some ''b'', Some ''c'']])
                 False True True = Done t'
        \<and> body_rows t' = Some rs \<and> length rs = 2
        \<and> leaf (rs ! 0 ! 0) = Some ''a'' \<and> leaf (rs ! 0 ! 1) = None
        \<and> leaf (rs ! 1 ! 0) = Some ''b'' \<and> leaf (rs ! 1 ! 1) = Some ''c'')"
proof -
  have "\<exists>t' rs. populate new_table (Some [[Some ''a'', None], [Some ''b'', Some ''c'']])
                 False True True = Done t'
        \<and> body_rows t' = Some rs \<and> length rs = 2
        \<and> (\<forall>i < 2. length (rs ! i) = 2
             \<and> (\<forall>j < 2. leaf (rs ! i ! j) = [[Some ''a'', None], [Some ''b'', Some ''c'']] ! i ! j))"
    by (rule populate_grows_from_empty) (simp_all add: new_table_def)
  then obtain t' rs where
    p: "populate new_table (Some [[Some ''a'', None], [Some ''b'', Some ''c'']])
          False True True = Done t'"
    and b: "body_rows t' = Some rs" "length rs = 2"
    and c: "\<forall>i < 2. length (rs ! i) = 2
             \<and> (\<forall>j < 2. leaf (rs ! i ! j) = [[Some ''a'', None], [Some ''b'', Some ''c'']] ! i ! j)"
    by blast
  from c have "leaf (rs ! 0 ! 0) = Some ''a''" "leaf (rs ! 0 ! 1) = None"
    "leaf (rs ! 1 ! 0) = Some ''b''" "leaf (rs ! 1 ! 1) = Some ''c''"
    by (simp_all add: numeral_2_eq_2 All_less_Suc)
  with p b show ?thesis by (auto simp: new_table_def)
qed

text \<open>
  Claim C8. A table is meant to own at most one header container. \<^verbatim>\<open>make_header\<close>
  called twice on a new table leaves two \<^verbatim>\<open>Thead\<close> children, the first one still
  named by \<^verbatim>\<open>self.header\<close>: the container is appended before the existence check,
  which only guards the attribute. The footer goes the same way.
\<close>

theorem make_header_twice:
  "make_header (make_header new_table [Some ''h1'']) [Some ''h2''] =
     \<lparr>parts = [Thead [[Th [''h1'']]], Thead [[Th [''h2'']]]],
      body = None, header = Some 0, footer = None, caption = None\<rparr>
   \<and> make_footer (make_footer new_table [Some ''f1'']) [Some ''f2''] =
     \<lparr>parts = [Tfoot [[Td [''f1'']]], Tfoot [[Td [''f2'']]]],
      body = None, header = None, footer = Some 0, caption = None\<rparr>"
  by (simp add: make_header_def make_footer_def make_table_part_def new_table_def)

text \<open>
  Claim C10. Reconciling a table whose body owns at least one row with a grid that is
  present and has no rows raises, whatever the options: the error is the
  \<^verbatim>\<open>ValueError\<close> of \<^verbatim>\<open>max\<close> on an empty sequence, not a \<^verbatim>\<open>WidgetDataError\<close>, so the
  call is not a no-op; the table is as it was.
\<close>

theorem populate_empty_grid_raises:
  assumes "body_rows t = Some rs" and "rs \<noteq> []"
  shows "populate t (Some []) resize_x force normalize' = Raised ValueError t"
  using assms by (simp add: populate_def node_true_def)

theorem populate_empty_grid_raises_witness:
  "body_rows table_3rows = Some [[Td [''a'']], [Td [''b'']], [Td [''c'']]]
   \<and> populate table_3rows (Some []) True False True = Raised ValueError table_3rows"
  using populate_empty_grid_raises[of table_3rows "[[Td [''a'']], [Td [''b'']], [Td [''c'']]]"
      True False True]
  by (simp add: table_3rows_def body_rows_def)

subsection \<open>Auxiliary facts about the list builder\<close>

lemma pop_typ_no_override: "\<not> embeds_typ struct \<Longrightarrow> pop_typ typ struct = (typ, struct)"
  by (auto simp: embeds_typ_def pop_typ_def split: pyv.splits option.splits)

lemma resolve_cls: "resolve tags (PCls c) = Inr c"
  by (simp add: resolve_def)

lemma pairs_of_nonempty: "xs \<noteq> [] \<Longrightarrow> pairs_of xs = map (\<lambda>x. (x, PNone)) xs"
proof (cases xs)
  case Nil
  then show "xs \<noteq> [] \<Longrightarrow> ?thesis" by simp
next
  case (Cons x ys)
  have "map (\<lambda>(k, v). (unfill k, unfill v)) (zip_longest ys []) = map (\<lambda>x. (x, PNone)) ys"
    by (induction ys) simp_all
  with Cons show ?thesis by (simp add: pairs_of_def)
qed

lemma dict_set_keys: "fst ` set (dict_set d k v) = insert k (fst ` set d)"
  by (induction d k v rule: dict_set.induct) auto

lemma dict_set_distinct: "distinct (map fst d) \<Longrightarrow> distinct (map fst (dict_set d k v))"
proof (induction d k v rule: dict_set.induct)
  case (1 k v)
  then show ?case by simp
next
  case (2 k' v' d k v)
  then show ?case using dict_set_keys[of d k v] by auto
qed

lemma dict_set_values:
  "\<forall>p \<in> set d. snd p = PNone \<Longrightarrow> \<forall>p \<in> set (dict_set d k PNone). snd p = PNone"
  by (induction d k PNone rule: dict_set.induct) auto

lemma dict_from_keys:
  assumes "\<forall>x \<in> set xs. hashable x" and "distinct (map fst acc)"
    and "\<forall>p \<in> set acc. snd p = PNone"
  shows "\<exists>d. dict_from acc (map (\<lambda>x. (x, PNone)) xs) = Inr d \<and> distinct (map fst d)
           \<and> set (map fst d) = set (map fst acc) \<union> set xs \<and> (\<forall>p \<in> set d. snd p = PNone)"
  using assms
proof (induction xs arbitrary: acc)
  case Nil
  then show ?case by simp
next
  case (Cons x xs)
  have "\<exists>d. dict_from (dict_set acc x PNone) (map (\<lambda>x. (x, PNone)) xs) = Inr d
          \<and> distinct (map fst d)
          \<and> set (map fst d) = set (map fst (dict_set acc x PNone)) \<union> set xs
          \<and> (\<forall>p \<in> set d. snd p = PNone)"
    using Cons.prems by (intro Cons.IH dict_set_distinct dict_set_values) simp_all
  then show ?case using Cons.prems(1) by (auto simp: dict_set_keys)
qed

lemma populate_items_flat:
  "\<forall>p \<in> set d. snd p = PNone \<Longrightarrow>
   populate_items tags c kids d = Inr (kids @ map (\<lambda>p. Elem ''Li'' (li_content (fst p))) d)"
proof (induction d arbitrary: kids)
  case Nil
  then show ?case by simp
next
  case (Cons p d)
  then show ?case by (cases p) simp
qed

subsection \<open>Claims about the list builder\<close>

text \<open>
  Claim C6. Built from the mapping \<open>{"a": None, "b": ["x", "y"]}\<close>, a list of class
  \<open>c\<close> has exactly the two items \<open>a\<close> and \<open>b\<close>, in this order; the item \<open>b\<close> owns,
  after its leaf, one nested list with exactly the items \<open>x\<close> and \<open>y\<close>, and the nested
  list has the class \<open>c\<close> of its parent. When the sub-structure of \<open>b\<close> is a mapping
  with a \<^verbatim>\<open>'_typ'\<close> entry, the nested list has the class that this entry resolves to.
\<close>

theorem nested_list_flavor:
  assumes "resolve tags typ = Inr c" and "resolve tags tok = Inr c'"
  shows "TempyList tags typ
           (PDict [(PStr ''a'', PNone), (PStr ''b'', PList [PStr ''x'', PStr ''y''])]) =
         Inr (Elem c [Elem ''Li'' [Leaf (PStr ''a'')],
                      Elem ''Li'' [Leaf (PStr ''b''),
                                   Elem c [Elem ''Li'' [Leaf (PStr ''x'')],
                                           Elem ''Li'' [Leaf (PStr ''y'')]]]])
       \<and> TempyList tags typ
           (PDict [(PStr ''a'', PNone),
                   (PStr ''b'', PDict [(PStr ''x'', PNone), (PStr ''y'', PNone),
                                       (PStr ''_typ'', tok)])]) =
         Inr (Elem c [Elem ''Li'' [Leaf (PStr ''a'')],
                      Elem ''Li'' [Leaf (PStr ''b''),
                                   Elem c' [Elem ''Li'' [Leaf (PStr ''x'')],
                                            Elem ''Li'' [Leaf (PStr ''y'')]]]])"
  using assms by (simp add: pop_typ_def resolve_cls pairs_of_def)

theorem nested_list_flavor_witness:
  "resolve tags_module (PStr ''Ol'') = Inr ''Ol'' \<and> resolve tags_module (PStr ''Ul'') = Inr ''Ul''
   \<and> TempyList tags_module (PStr ''Ol'')
       (PDict [(PStr ''a'', PNone), (PStr ''b'', PList [PStr ''x'', PStr ''y''])]) =
     Inr (Elem ''Ol'' [Elem ''Li'' [Leaf (PStr ''a'')],
                       Elem ''Li'' [Leaf (PStr ''b''),
                                    Elem ''Ol'' [Elem ''Li'' [Leaf (PStr ''x'')],
                                                 Elem ''Li'' [Leaf (PStr ''y'')]]]])
   \<and> TempyList tags_module (PStr ''Ol'')
       (PDict [(PStr ''a'', PNone),
               (PStr ''b'', PDict [(PStr ''x'', PNone), (PStr ''y'', PNone),
                                   (PStr ''_typ'', PStr ''Ul'')])]) =
     Inr (Elem ''Ol'' [Elem ''Li'' [Leaf (PStr ''a'')],
                       Elem ''Li'' [Leaf (PStr ''b''),
                                    Elem ''Ul'' [Elem ''Li'' [Leaf (PStr ''x'')],
                                                 Elem ''Li'' [Leaf (PStr ''y'')]]]])"
proof -
  have r: "resolve tags_module (PStr ''Ol'') = Inr ''Ol''"
    "resolve tags_module (PStr ''Ul'') = Inr ''Ul''"
    by (simp_all add: resolve_def tags_module_def)
  from nested_list_flavor[OF r] r show ?thesis by simp
qed

text \<open>
  Claim C7, as amended. A flavor string that names no attribute of the tags module, given
  with a structure that embeds no \<^verbatim>\<open>'_typ'\<close> entry, makes the factory raise
  \<^verbatim>\<open>WidgetError\<close> before any node exists.
\<close>

theorem factory_rejects_unknown:
  assumes "tags tok = None" and "\<not> embeds_typ struct"
  shows "TempyList tags (PStr tok) struct = Inl (WidgetError, None)"
  using assms by (simp add: pop_typ_no_override resolve_def)

theorem factory_rejects_unknown_witness:
  "tags_module ''NotARealFlavor'' = None \<and> \<not> embeds_typ (PList [PStr ''a''])
   \<and> TempyList tags_module (PStr ''NotARealFlavor'') (PList [PStr ''a'']) = Inl (WidgetError, None)"
  using factory_rejects_unknown[of tags_module "''NotARealFlavor''" "PList [PStr ''a'']"]
  by (simp add: tags_module_def embeds_typ_def)

text \<open>
  Claim C7, as stated, fails twice. An embedded \<^verbatim>\<open>'_typ'\<close> replaces the token of the
  caller before the lookup, so an unknown token is never seen; and a token that names a
  tag of the module which is no list variant (\<^verbatim>\<open>Td\<close>) is accepted.
\<close>

theorem factory_accepts_counterexample:
  "tags_module ''NotARealFlavor'' = None
   \<and> TempyList tags_module (PStr ''NotARealFlavor'')
        (PDict [(PStr ''_typ'', PStr ''Ul''), (PStr ''a'', PNone)]) =
      Inr (Elem ''Ul'' [Elem ''Li'' [Leaf (PStr ''a'')]])
   \<and> TempyList tags_module (PStr ''Td'') PNone = Inr (Elem ''Td'' [])"
  by (simp add: tags_module_def pop_typ_def resolve_def)

text \<open>
  Claim C9. A flat sequence is turned into a dict before the items are built, so equal
  elements collapse: for a non-empty list of hashable elements the new list owns one
  item per distinct element, as many as the list has distinct elements.
\<close>

theorem flat_sequence_collapses:
  assumes "xs \<noteq> []" and "\<forall>x \<in> set xs. hashable x" and "resolve tags typ = Inr c"
  shows "\<exists>ks. distinct ks \<and> set ks = set xs \<and> length ks = card (set xs)
           \<and> TempyList tags typ (PList xs) = Inr (Elem c (map (\<lambda>k. Elem ''Li'' (li_content k)) ks))"
proof -
  from dict_from_keys[OF assms(2), of "[]"] obtain d where
    d: "dict_from [] (map (\<lambda>x. (x, PNone)) xs) = Inr d" "distinct (map fst d)"
      "set (map fst d) = set xs" "\<forall>p \<in> set d. snd p = PNone"
    by auto
  have "TempyList tags typ (PList xs) =
          Inr (Elem c (map (\<lambda>k. Elem ''Li'' (li_content k)) (map fst d)))"
    using assms(3) d(1) populate_items_flat[OF d(4), of tags c "[]"]
    by (simp add: pop_typ_def pairs_of_nonempty[OF assms(1)] comp_def)
  moreover have "length (map fst d) = card (set xs)"
    using d(2,3) distinct_card by metis
  ultimately show ?thesis using d(2,3) by blast
qed

theorem flat_sequence_collapses_witness:
  "[PStr ''a'', PStr ''a'', PStr ''b''] \<noteq> []
   \<and> list_all hashable [PStr ''a'', PStr ''a'', PStr ''b'']
   \<and> resolve tags_module PNone = Inr ''Ul''
   \<and> card (set [PStr ''a'', PStr ''a'', PStr ''b'']) = 2
   \<and> TempyList tags_module PNone (PList [PStr ''a'', PStr ''a'', PStr ''b'']) =
       Inr (Elem ''Ul'' [Elem ''Li'' [Leaf (PStr ''a'')], Elem ''Li'' [Leaf (PStr ''b'')]])"
  using flat_sequence_collapses[of "[PStr ''a'', PStr ''a'', PStr ''b'']" tags_module PNone "''Ul''"]
  by (simp add: resolve_def pop_typ_def pairs_of_def)

end
